theory Spec2Isabelle
  imports Main "HOL-Library.Multiset"
begin

section \<open>Calendar arithmetic\<close>

text \<open>
  The program handles dates through the JavaScript \<^verbatim>\<open>Date\<close> object and the date-fns
  library. Both work on the proleptic Gregorian calendar. The two functions below convert
  between a civil date (year, month 1..12, day of month) and the number of days since
  1970-01-01, which is day 0.
\<close>

definition is_leap :: "int \<Rightarrow> bool" where
  "is_leap y = (y mod 4 = 0 \<and> (y mod 100 \<noteq> 0 \<or> y mod 400 = 0))"

definition days_in_month :: "int \<Rightarrow> int \<Rightarrow> int" where
  "days_in_month y m =
     (if m = 2 then (if is_leap y then 29 else 28)
      else if m = 4 \<or> m = 6 \<or> m = 9 \<or> m = 11 then 30 else 31)"

text \<open>
  Both count in eras of 400 years, 146097 days each, and in years that start on 1 March,
  so that the leap day is the last day of its year: \<open>days_before_year\<close> is the number of
  days of an era before its year \<open>yoe\<close> (0..399), \<open>year_of_era\<close> the year of the day
  \<open>doe\<close> of an era (0..146096), \<open>days_before_month\<close> the number of days of such a year
  before its month \<open>mp\<close> (0 for March, 11 for February), and \<open>month_from_march\<close> the
  month of the day \<open>doy\<close> of such a year.
\<close>

definition days_before_year :: "int \<Rightarrow> int" where
  "days_before_year yoe = 365 * yoe + yoe div 4 - yoe div 100"

definition year_of_era :: "int \<Rightarrow> int" where
  "year_of_era doe = (doe - doe div 1460 + doe div 36524 - doe div 146096) div 365"

definition days_before_month :: "int \<Rightarrow> int" where
  "days_before_month mp = (153 * mp + 2) div 5"

definition month_from_march :: "int \<Rightarrow> int" where
  "month_from_march doy =
     (if doy < 31 then 0 else if doy < 61 then 1 else if doy < 92 then 2
      else if doy < 122 then 3 else if doy < 153 then 4 else if doy < 184 then 5
      else if doy < 214 then 6 else if doy < 245 then 7 else if doy < 275 then 8
      else if doy < 306 then 9 else if doy < 337 then 10 else 11)"

definition days_from_civil :: "int \<Rightarrow> int \<Rightarrow> int \<Rightarrow> int" where
  "days_from_civil y m d =
     (let y' = (if m \<le> 2 then y - 1 else y);
          era = y' div 400;
          yoe = y' - era * 400;
          mp = (m + 9) mod 12;
          doy = days_before_month mp + d - 1;
          doe = days_before_year yoe + doy
      in era * 146097 + doe - 719468)"

definition civil_from_days :: "int \<Rightarrow> int \<times> int \<times> int" where
  "civil_from_days z0 =
     (let z = z0 + 719468;
          era = z div 146097;
          doe = z - era * 146097;
          yoe = year_of_era doe;
          doy = doe - days_before_year yoe;
          mp = month_from_march doy;
          d = doy - days_before_month mp + 1;
          m = (if mp < 10 then mp + 3 else mp - 9);
          y = yoe + era * 400 + (if m \<le> 2 then 1 else 0)
      in (y, m, d))"

section \<open>Dates\<close>

text \<open>
  A JavaScript \<^verbatim>\<open>Date\<close> holds a time value: the milliseconds since 1970-01-01T00:00 UTC,
  or NaN for the Invalid Date. It is modelled as \<open>int option\<close>, \<open>None\<close> being the
  Invalid Date. The local-time operations of date-fns take the zone offset \<open>tz\<close>
  (local time minus UTC, in milliseconds) as a parameter; the offset is taken to be the
  same for every instant, that is the zone has no daylight-saving transitions.
\<close>

type_synonym Date = "int option"

definition msPerDay :: int where
  "msPerDay = 86400000"

text \<open>The local calendar day (days since 1970-01-01) and the local time of day.\<close>

definition localDay :: "int \<Rightarrow> int \<Rightarrow> int" where
  "localDay tz t = (t + tz) div msPerDay"

definition localTimeOfDay :: "int \<Rightarrow> int \<Rightarrow> int" where
  "localTimeOfDay tz t = (t + tz) mod msPerDay"

text \<open>\<^verbatim>\<open>new Date(y, m - 1, d, 0, 0, 0, ms)\<close>: the instant that reads as the given local date and
  milliseconds after local midnight.\<close>

definition localDate :: "int \<Rightarrow> int \<Rightarrow> int \<Rightarrow> int \<Rightarrow> int \<Rightarrow> int" where
  "localDate tz y m d ms = days_from_civil y m d * msPerDay + ms - tz"

text \<open>\<^verbatim>\<open>getFullYear\<close>, \<^verbatim>\<open>getMonth\<close> (0 for January) and \<^verbatim>\<open>getDay\<close> (0 for Sunday). Day 0,
  1970-01-01, was a Thursday.\<close>

definition getFullYear :: "int \<Rightarrow> int \<Rightarrow> int" where
  "getFullYear tz t = fst (civil_from_days (localDay tz t))"

definition getMonth :: "int \<Rightarrow> int \<Rightarrow> int" where
  "getMonth tz t = fst (snd (civil_from_days (localDay tz t))) - 1"

definition getDate :: "int \<Rightarrow> int \<Rightarrow> int" where
  "getDate tz t = snd (snd (civil_from_days (localDay tz t)))"

definition getDay :: "int \<Rightarrow> int \<Rightarrow> int" where
  "getDay tz t = (localDay tz t + 4) mod 7"

subsection \<open>date-fns\<close>

text \<open>\<^verbatim>\<open>startOfDay\<close> sets the local time to 00:00:00.000.\<close>

definition startOfDay :: "int \<Rightarrow> Date \<Rightarrow> Date" where
  "startOfDay tz d = map_option (\<lambda>t. t - localTimeOfDay tz t) d"

text \<open>\<^verbatim>\<open>isSameDay(a, b)\<close> is \<^verbatim>\<open>+startOfDay(a) === +startOfDay(b)\<close>; NaN equals nothing.\<close>

definition isSameDay :: "int \<Rightarrow> Date \<Rightarrow> Date \<Rightarrow> bool" where
  "isSameDay tz a b =
     (case (startOfDay tz a, startOfDay tz b) of
        (Some x, Some y) \<Rightarrow> x = y
      | _ \<Rightarrow> False)"

text \<open>\<^verbatim>\<open>addDays\<close> moves the calendar date and keeps the local time of day.\<close>

definition addDays :: "Date \<Rightarrow> int \<Rightarrow> Date" where
  "addDays d n = map_option (\<lambda>t. t + n * msPerDay) d"

definition addWeeks :: "Date \<Rightarrow> int \<Rightarrow> Date" where
  "addWeeks d n = addDays d (n * 7)"

text \<open>\<^verbatim>\<open>isAfter(a, b)\<close> is \<^verbatim>\<open>a.getTime() > b.getTime()\<close>; a comparison with NaN is false.\<close>

definition isAfter :: "Date \<Rightarrow> Date \<Rightarrow> bool" where
  "isAfter a b = (case (a, b) of (Some x, Some y) \<Rightarrow> x > y | _ \<Rightarrow> False)"

text \<open>\<^verbatim>\<open>startOfWeek\<close> and \<^verbatim>\<open>endOfWeek\<close> with the default options: the week starts on
  Sunday. The first goes back \<^verbatim>\<open>getDay\<close> days and to 00:00:00.000, the second goes
  forward to Saturday, 23:59:59.999.\<close>

definition startOfWeek :: "int \<Rightarrow> Date \<Rightarrow> Date" where
  "startOfWeek tz d =
     map_option (\<lambda>t. t - getDay tz t * msPerDay - localTimeOfDay tz t) d"

definition endOfWeek :: "int \<Rightarrow> Date \<Rightarrow> Date" where
  "endOfWeek tz d =
     map_option (\<lambda>t. t + (6 - getDay tz t) * msPerDay - localTimeOfDay tz t + (msPerDay - 1)) d"

text \<open>\<^verbatim>\<open>isWithinInterval(date, {start, end})\<close> is \<^verbatim>\<open>time >= startTime && time <= endTime\<close>.
  The versions of date-fns differ on an interval whose start is after its end or invalid
  (a RangeError, or the ends swapped); the program never builds one, and the model gives
  \<open>False\<close> there.\<close>

definition isWithinInterval :: "Date \<Rightarrow> Date \<Rightarrow> Date \<Rightarrow> bool" where
  "isWithinInterval d start end' =
     (case (d, start, end') of
        (Some t, Some a, Some b) \<Rightarrow> a \<le> b \<and> a \<le> t \<and> t \<le> b
      | _ \<Rightarrow> False)"

section \<open>Date strings\<close>

datatype error = RangeError | SyntaxError

definition is_digit :: "char \<Rightarrow> bool" where
  "is_digit c = (48 \<le> (of_char c :: nat) \<and> (of_char c :: nat) \<le> 57)"

definition digit_val :: "char \<Rightarrow> int" where
  "digit_val c = int (of_char c) - 48"

definition parse_digits :: "string \<Rightarrow> int option" where
  "parse_digits s =
     (if s \<noteq> [] \<and> list_all is_digit s
      then Some (foldl (\<lambda>a c. 10 * a + digit_val c) 0 s) else None)"

text \<open>
  The calendar-date form \<^verbatim>\<open>YYYY-MM-DD\<close> of ISO 8601, with the month in 1..12 and the day
  in the month. This is the form the program itself writes (\<^verbatim>\<open>format(new Date(),
  'yyyy-MM-dd')\<close>, for a new task and for the bound of the remote query). The other forms
  that \<^verbatim>\<open>parseISO\<close> and \<^verbatim>\<open>new Date\<close> accept (a time part, week dates, ordinal dates,
  extended years) are outside the model: \<open>parse_ymd\<close> gives \<open>None\<close> for them, and the
  theorems below that depend on a date say that the dates are of this form.
\<close>

definition parse_ymd :: "string \<Rightarrow> (int \<times> int \<times> int) option" where
  "parse_ymd s =
     (if length s = 10 \<and> s ! 4 = CHR ''-'' \<and> s ! 7 = CHR ''-'' then
        (case (parse_digits (take 4 s), parse_digits (take 2 (drop 5 s)),
               parse_digits (drop 8 s)) of
           (Some y, Some m, Some d) \<Rightarrow>
             (if 1 \<le> m \<and> m \<le> 12 \<and> 1 \<le> d \<and> d \<le> days_in_month y m
              then Some (y, m, d) else None)
         | _ \<Rightarrow> None)
      else None)"

text \<open>The day that a date string names, in days since 1970-01-01.\<close>

definition dateNumber :: "string \<Rightarrow> int option" where
  "dateNumber x = map_option (\<lambda>(y, m, d). days_from_civil y m d) (parse_ymd x)"

text \<open>\<^verbatim>\<open>parseISO\<close> of date-fns reads a date without a time as local midnight of that day,
  and gives the Invalid Date for a string it cannot read.\<close>

definition parseISO :: "int \<Rightarrow> string \<Rightarrow> Date" where
  "parseISO tz s =
     (case parse_ymd s of
        Some (y, m, d) \<Rightarrow> Some (localDate tz y m d 0)
      | None \<Rightarrow> None)"

text \<open>\<^verbatim>\<open>new Date(s)\<close> reads a date without a time as midnight UTC of that day.\<close>

definition new_Date :: "string \<Rightarrow> Date" where
  "new_Date s =
     (case parse_ymd s of
        Some (y, m, d) \<Rightarrow> Some (days_from_civil y m d * msPerDay)
      | None \<Rightarrow> None)"

subsection \<open>Formatting\<close>

definition digit_char :: "int \<Rightarrow> char" where
  "digit_char n = char_of (48 + nat n)"

text \<open>The decimal digits of a number below 10000, padded with zeros to \<open>w\<close> places
  (\<open>w\<close> is 2 or 4 here).\<close>

definition pad4 :: "int \<Rightarrow> string" where
  "pad4 n = [digit_char (n div 1000 mod 10), digit_char (n div 100 mod 10),
             digit_char (n div 10 mod 10), digit_char (n mod 10)]"

definition pad2 :: "int \<Rightarrow> string" where
  "pad2 n = [digit_char (n div 10 mod 10), digit_char (n mod 10)]"

text \<open>\<^verbatim>\<open>format(d, 'yyyy-MM-dd')\<close> and \<^verbatim>\<open>format(d, 'MMM')\<close> in the default locale (en-US).
  \<^verbatim>\<open>format\<close> throws a RangeError on the Invalid Date; \<open>yyyy_MM_dd\<close> and \<open>MMM\<close> are
  the results on a valid one. The model of \<^verbatim>\<open>yyyy\<close> covers the years 0 to 9999.\<close>

definition yyyy_MM_dd :: "int \<Rightarrow> int \<Rightarrow> string" where
  "yyyy_MM_dd tz t =
     pad4 (getFullYear tz t) @ ''-'' @ pad2 (getMonth tz t + 1) @ ''-'' @ pad2 (getDate tz t)"

definition format_yyyy_MM_dd :: "int \<Rightarrow> Date \<Rightarrow> error + string" where
  "format_yyyy_MM_dd tz d =
     (case d of None \<Rightarrow> Inl RangeError | Some t \<Rightarrow> Inr (yyyy_MM_dd tz t))"

definition monthAbbr :: "string list" where
  "monthAbbr = [''Jan'', ''Feb'', ''Mar'', ''Apr'', ''May'', ''Jun'',
                ''Jul'', ''Aug'', ''Sep'', ''Oct'', ''Nov'', ''Dec'']"

definition MMM :: "int \<Rightarrow> int \<Rightarrow> string" where
  "MMM tz t = monthAbbr ! nat (getMonth tz t)"

definition format_MMM :: "int \<Rightarrow> Date \<Rightarrow> error + string" where
  "format_MMM tz d =
     (case d of None \<Rightarrow> Inl RangeError | Some t \<Rightarrow> Inr (MMM tz t))"

text \<open>\<^verbatim>\<open>String.prototype.toUpperCase\<close> on the ASCII letters.\<close>

definition upper_char :: "char \<Rightarrow> char" where
  "upper_char c =
     (if 97 \<le> (of_char c :: nat) \<and> (of_char c :: nat) \<le> 122
      then char_of (of_char c - 32 :: nat) else c)"

definition toUpperCase :: "string \<Rightarrow> string" where
  "toUpperCase s = map upper_char s"

section \<open>Events\<close>

text \<open>The type \<^verbatim>\<open>EvalEvent\<close>. An \<^verbatim>\<open>id\<close> is a string or a number; an optional field is
  an \<open>option\<close>.\<close>

datatype ident = IdNum int | IdStr string

datatype EvalType = Quiz | Midsem | Lab | Deadline | Compre | Personal

record EvalEvent =
  ev_id :: ident
  title :: string
  event_date :: string
  time_range :: "string option"
  description :: "string option"
  ev_type :: EvalType
  isPersonal :: "bool option"

text \<open>An event whose \<^verbatim>\<open>event_date\<close> is a calendar date, the day of that date (of use
  for such an event only), and the month (0 for January) and year of the date as
  \<^verbatim>\<open>parseISO\<close> reads it.\<close>

definition calendarDated :: "EvalEvent \<Rightarrow> bool" where
  "calendarDated e = (dateNumber (event_date e) \<noteq> None)"

definition eventDay :: "EvalEvent \<Rightarrow> int" where
  "eventDay e = (case dateNumber (event_date e) of Some k \<Rightarrow> k | None \<Rightarrow> 0)"

definition eventMonth :: "int \<Rightarrow> EvalEvent \<Rightarrow> int option" where
  "eventMonth tz e = map_option (getMonth tz) (parseISO tz (event_date e))"

definition eventYear :: "int \<Rightarrow> EvalEvent \<Rightarrow> int option" where
  "eventYear tz e = map_option (getFullYear tz) (parseISO tz (event_date e))"

section \<open>The merged sequence\<close>

text \<open>
  \<^verbatim>\<open>Array.prototype.sort\<close> with a comparator: a stable sort, ascending by the comparator,
  which reads a NaN from the comparator as 0. The model is insertion sort; for a
  comparator that is a consistent order every stable sort gives the same result.
\<close>

definition sortCompare :: "('a \<Rightarrow> 'a \<Rightarrow> int option) \<Rightarrow> 'a \<Rightarrow> 'a \<Rightarrow> int" where
  "sortCompare cmp a b = (case cmp a b of None \<Rightarrow> 0 | Some v \<Rightarrow> v)"

fun insertSorted :: "('a \<Rightarrow> 'a \<Rightarrow> int option) \<Rightarrow> 'a \<Rightarrow> 'a list \<Rightarrow> 'a list" where
  "insertSorted cmp x [] = [x]"
| "insertSorted cmp x (y # ys) =
     (if sortCompare cmp x y \<le> 0 then x # y # ys else y # insertSorted cmp x ys)"

definition array_sort :: "('a \<Rightarrow> 'a \<Rightarrow> int option) \<Rightarrow> 'a list \<Rightarrow> 'a list" where
  "array_sort cmp xs = foldr (insertSorted cmp) xs []"

text \<open>The comparator of line 89:
  \<^verbatim>\<open>new Date(a.event_date).getTime() - new Date(b.event_date).getTime()\<close>.\<close>

definition compareEvals :: "EvalEvent \<Rightarrow> EvalEvent \<Rightarrow> int option" where
  "compareEvals a b =
     (case (new_Date (event_date a), new_Date (event_date b)) of
        (Some x, Some y) \<Rightarrow> Some (x - y)
      | _ \<Rightarrow> None)"

definition allEvals :: "EvalEvent list \<Rightarrow> EvalEvent list \<Rightarrow> EvalEvent list" where
  "allEvals masterEvals personalEvals = array_sort compareEvals (masterEvals @ personalEvals)"

section \<open>View logic\<close>

text \<open>\<open>now\<close> is the time value of \<^verbatim>\<open>today = new Date()\<close>, \<open>evs\<close> the merged sequence.\<close>

definition tomorrow :: "int \<Rightarrow> Date" where
  "tomorrow now = addDays (Some now) 1"

definition todayEvals :: "int \<Rightarrow> int \<Rightarrow> EvalEvent list \<Rightarrow> EvalEvent list" where
  "todayEvals tz now evs =
     filter (\<lambda>e. isSameDay tz (parseISO tz (event_date e)) (Some now)) evs"

definition tomorrowEvals :: "int \<Rightarrow> int \<Rightarrow> EvalEvent list \<Rightarrow> EvalEvent list" where
  "tomorrowEvals tz now evs =
     filter (\<lambda>e. isSameDay tz (parseISO tz (event_date e)) (tomorrow now)) evs"

definition upcomingEvals :: "int \<Rightarrow> int \<Rightarrow> EvalEvent list \<Rightarrow> EvalEvent list" where
  "upcomingEvals tz now evs =
     filter (\<lambda>e. let date = parseISO tz (event_date e)
                 in isAfter date (tomorrow now) \<and> isAfter (addDays (Some now) 14) date) evs"

definition currentWeekStart :: "int \<Rightarrow> int \<Rightarrow> int \<Rightarrow> Date" where
  "currentWeekStart tz now weekOffset = addWeeks (startOfWeek tz (Some now)) weekOffset"

definition currentWeekEnd :: "int \<Rightarrow> int \<Rightarrow> int \<Rightarrow> Date" where
  "currentWeekEnd tz now weekOffset = endOfWeek tz (currentWeekStart tz now weekOffset)"

definition weeklyEvals :: "int \<Rightarrow> int \<Rightarrow> int \<Rightarrow> EvalEvent list \<Rightarrow> EvalEvent list" where
  "weeklyEvals tz now weekOffset evs =
     filter (\<lambda>e. isWithinInterval (parseISO tz (event_date e))
                   (currentWeekStart tz now weekOffset) (currentWeekEnd tz now weekOffset)) evs"

text \<open>A filter whose predicate may throw: the first exception ends it.\<close>

fun filter_throw :: "('a \<Rightarrow> error + bool) \<Rightarrow> 'a list \<Rightarrow> error + 'a list" where
  "filter_throw p [] = Inr []"
| "filter_throw p (x # xs) =
     (case p x of
        Inl e \<Rightarrow> Inl e
      | Inr b \<Rightarrow>
          (case filter_throw p xs of
             Inl e \<Rightarrow> Inl e
           | Inr ys \<Rightarrow> Inr (if b then x # ys else ys)))"

definition monthlyEvals :: "int \<Rightarrow> string \<Rightarrow> EvalEvent list \<Rightarrow> error + EvalEvent list" where
  "monthlyEvals tz selectedMonth evs =
     filter_throw
       (\<lambda>e. case format_MMM tz (parseISO tz (event_date e)) of
               Inl err \<Rightarrow> Inl err
             | Inr s \<Rightarrow> Inr (toUpperCase s = selectedMonth)) evs"

definition monthTabs :: "string list" where
  "monthTabs = [''JAN'', ''FEB'', ''MAR'', ''APR'', ''MAY'']"

section \<open>JSON\<close>

text \<open>
  \<^verbatim>\<open>JSON.stringify\<close> of an array of events. The keys of an object come in the order of
  the object literal of \<^verbatim>\<open>addPersonalEval\<close>; a field that is \<^verbatim>\<open>undefined\<close> is left out.
\<close>

function digits :: "int \<Rightarrow> string" where
  "digits n =
     (if n < 10 then [digit_char n] else digits (n div 10) @ [digit_char (n mod 10)])"
  by pat_completeness auto
termination
  by (relation "measure nat") auto

declare digits.simps [simp del]

definition number_text :: "int \<Rightarrow> string" where
  "number_text n = (if n < 0 then CHR ''-'' # digits (- n) else digits n)"

definition hex_char :: "nat \<Rightarrow> char" where
  "hex_char n = (if n < 10 then char_of (48 + n) else char_of (87 + n))"

definition quote_char :: "char \<Rightarrow> string" where
  "quote_char c =
     (let n = (of_char c :: nat) in
      if n = 34 then [CHR 0x5C, CHR 0x22]
      else if n = 92 then [CHR 0x5C, CHR 0x5C]
      else if n = 8 then [CHR 0x5C, CHR ''b'']
      else if n = 9 then [CHR 0x5C, CHR ''t'']
      else if n = 10 then [CHR 0x5C, CHR ''n'']
      else if n = 12 then [CHR 0x5C, CHR ''f'']
      else if n = 13 then [CHR 0x5C, CHR ''r'']
      else if n < 32 then [CHR 0x5C, CHR ''u'', CHR ''0'', CHR ''0'', hex_char (n div 16),
                           hex_char (n mod 16)]
      else [c])"

definition quote :: "string \<Rightarrow> string" where
  "quote s = CHR 0x22 # concat (map quote_char s) @ [CHR 0x22]"

definition typeName :: "EvalType \<Rightarrow> string" where
  "typeName t =
     (case t of Quiz \<Rightarrow> ''Quiz'' | Midsem \<Rightarrow> ''Midsem'' | Lab \<Rightarrow> ''Lab''
      | Deadline \<Rightarrow> ''Deadline'' | Compre \<Rightarrow> ''Compre'' | Personal \<Rightarrow> ''Personal'')"

fun join :: "string \<Rightarrow> string list \<Rightarrow> string" where
  "join sep [] = []"
| "join sep [x] = x"
| "join sep (x # y # ys) = x @ sep @ join sep (y # ys)"

definition json_member :: "string \<Rightarrow> string \<Rightarrow> string" where
  "json_member k v = quote k @ '':'' @ v"

definition optional :: "string \<Rightarrow> ('a \<Rightarrow> string) \<Rightarrow> 'a option \<Rightarrow> string list" where
  "optional k f v = (case v of None \<Rightarrow> [] | Some x \<Rightarrow> [json_member k (f x)])"

definition stringify_event :: "EvalEvent \<Rightarrow> string" where
  "stringify_event e =
     ''{'' @ join '',''
       ([json_member ''id'' (case ev_id e of IdNum n \<Rightarrow> number_text n | IdStr x \<Rightarrow> quote x),
         json_member ''title'' (quote (title e)),
         json_member ''event_date'' (quote (event_date e))]
        @ optional ''time_range'' quote (time_range e)
        @ [json_member ''type'' (quote (typeName (ev_type e)))]
        @ optional ''isPersonal'' (\<lambda>b. if b then ''true'' else ''false'') (isPersonal e)
        @ optional ''description'' quote (description e))
     @ ''}''"

definition JSON_stringify :: "EvalEvent list \<Rightarrow> string" where
  "JSON_stringify xs = ''['' @ join '','' (map stringify_event xs) @ '']''"

text \<open>
  \<^verbatim>\<open>JSON.parse\<close>, for the texts that are an array of flat objects whose values are
  strings, integers, \<^verbatim>\<open>true\<close> or \<^verbatim>\<open>false\<close>, read as events. \<open>None\<close> stands for the
  SyntaxError of \<^verbatim>\<open>JSON.parse\<close>, and also for a text outside this fragment (nested values,
  \<^verbatim>\<open>null\<close>, fractions, a character beyond one byte in an escape, an element that lacks a
  field of \<^verbatim>\<open>EvalEvent\<close>), which the model does not cover.
\<close>

datatype token =
  TLBrack | TRBrack | TLBrace | TRBrace | TColon | TComma
  | TStr string | TNum int | TTrue | TFalse

definition hex_val :: "char \<Rightarrow> nat option" where
  "hex_val c =
     (let n = (of_char c :: nat) in
      if 48 \<le> n \<and> n \<le> 57 then Some (n - 48)
      else if 97 \<le> n \<and> n \<le> 102 then Some (n - 87)
      else if 65 \<le> n \<and> n \<le> 70 then Some (n - 55)
      else None)"

definition unescape :: "char \<Rightarrow> char option" where
  "unescape c =
     (if c = CHR 0x22 \<or> c = CHR 0x5C \<or> c = CHR ''/'' then Some c
      else if c = CHR ''b'' then Some (CHR 0x08)
      else if c = CHR ''t'' then Some (CHR 0x09)
      else if c = CHR ''n'' then Some (CHR 0x0A)
      else if c = CHR ''f'' then Some (CHR 0x0C)
      else if c = CHR ''r'' then Some (CHR 0x0D)
      else None)"

text \<open>The characters of a string literal after its opening quote, up to the closing
  quote: the string and the rest of the input.\<close>

fun string_token :: "string \<Rightarrow> string \<Rightarrow> (string \<times> string) option" where
  "string_token acc [] = None"
| "string_token acc [c] = (if c = CHR 0x22 then Some (rev acc, []) else None)"
| "string_token acc (c # e # cs) =
     (if c = CHR 0x22 then Some (rev acc, e # cs)
      else if c = CHR 0x5C then
        (if e = CHR ''u'' then
           (case cs of
              h1 # h2 # h3 # h4 # cs' \<Rightarrow>
                (case (hex_val h1, hex_val h2, hex_val h3, hex_val h4) of
                   (Some 0, Some 0, Some a, Some b) \<Rightarrow>
                     string_token (char_of (16 * a + b) # acc) cs'
                 | _ \<Rightarrow> None)
            | _ \<Rightarrow> None)
         else (case unescape e of
                 None \<Rightarrow> None
               | Some x \<Rightarrow> string_token (x # acc) cs))
      else if (of_char c :: nat) < 32 then None
      else string_token (c # acc) (e # cs))"

definition is_space :: "char \<Rightarrow> bool" where
  "is_space c = (c = CHR '' '' \<or> c = CHR 0x09 \<or> c = CHR 0x0A \<or> c = CHR 0x0D)"

definition number_token :: "string \<Rightarrow> int option" where
  "number_token s =
     (case s of
        [] \<Rightarrow> None
      | c # cs \<Rightarrow>
          (let ds = (if c = CHR ''-'' then cs else s) in
           if length ds > 1 \<and> hd ds = CHR ''0'' then None
           else map_option (\<lambda>n. if c = CHR ''-'' then - n else n) (parse_digits ds)))"

definition is_number_char :: "char \<Rightarrow> bool" where
  "is_number_char c = (is_digit c \<or> c \<in> set ''-+.eE'')"

function tokenize :: "string \<Rightarrow> token list option" where
  "tokenize [] = Some []"
| "tokenize (c # cs) =
     (if is_space c then tokenize cs
      else if c = CHR ''['' then map_option ((#) TLBrack) (tokenize cs)
      else if c = CHR '']'' then map_option ((#) TRBrack) (tokenize cs)
      else if c = CHR ''{'' then map_option ((#) TLBrace) (tokenize cs)
      else if c = CHR ''}'' then map_option ((#) TRBrace) (tokenize cs)
      else if c = CHR '':'' then map_option ((#) TColon) (tokenize cs)
      else if c = CHR '','' then map_option ((#) TComma) (tokenize cs)
      else if c = CHR 0x22 then
        (case string_token [] cs of
           None \<Rightarrow> None
         | Some (x, rest) \<Rightarrow>
             (if length rest < length (c # cs) then map_option ((#) (TStr x)) (tokenize rest)
              else None))
      else if take 4 (c # cs) = ''true'' then map_option ((#) TTrue) (tokenize (drop 3 cs))
      else if take 5 (c # cs) = ''false'' then map_option ((#) TFalse) (tokenize (drop 4 cs))
      else if is_number_char c then
        (case number_token (c # takeWhile is_number_char cs) of
           None \<Rightarrow> None
         | Some n \<Rightarrow> map_option ((#) (TNum n)) (tokenize (dropWhile is_number_char cs)))
      else None)"
  by pat_completeness auto
termination
  by (relation "measure length") (auto simp: less_Suc_eq_le length_dropWhile_le)

declare tokenize.simps [simp del]

datatype jscalar = JStr string | JNum int | JBool bool

definition scalar :: "token \<Rightarrow> jscalar option" where
  "scalar t =
     (case t of
        TStr x \<Rightarrow> Some (JStr x)
      | TNum n \<Rightarrow> Some (JNum n)
      | TTrue \<Rightarrow> Some (JBool True)
      | TFalse \<Rightarrow> Some (JBool False)
      | _ \<Rightarrow> None)"

type_synonym jobject = "(string \<times> jscalar) list"

text \<open>The elements of the array after its opening bracket: \<open>elements\<close> expects an
  object, \<open>members\<close> is inside one, \<open>after_object\<close> expects a comma or the closing
  bracket, which ends the text.\<close>

fun elements :: "jobject list \<Rightarrow> token list \<Rightarrow> jobject list option"
  and members :: "jobject list \<Rightarrow> jobject \<Rightarrow> token list \<Rightarrow> jobject list option"
  and after_object :: "jobject list \<Rightarrow> token list \<Rightarrow> jobject list option" where
  "elements objs ts =
     (case ts of
        TLBrace # TRBrace # rest \<Rightarrow> after_object (objs @ [[]]) rest
      | TLBrace # rest \<Rightarrow> members objs [] rest
      | _ \<Rightarrow> None)"
| "members objs ms ts =
     (case ts of
        TStr k # TColon # v # sep # rest \<Rightarrow>
          (case scalar v of
             None \<Rightarrow> None
           | Some x \<Rightarrow>
               (if sep = TComma then members objs (ms @ [(k, x)]) rest
                else if sep = TRBrace then after_object (objs @ [ms @ [(k, x)]]) rest
                else None))
      | _ \<Rightarrow> None)"
| "after_object objs ts =
     (case ts of
        [TRBrack] \<Rightarrow> Some objs
      | TComma # rest \<Rightarrow> elements objs rest
      | _ \<Rightarrow> None)"

definition parse_array :: "token list \<Rightarrow> jobject list option" where
  "parse_array ts =
     (case ts of
        [TLBrack, TRBrack] \<Rightarrow> Some []
      | TLBrack # rest \<Rightarrow> elements [] rest
      | _ \<Rightarrow> None)"

text \<open>A property read from a parsed object: the last member of that name.\<close>

definition property :: "jobject \<Rightarrow> string \<Rightarrow> jscalar option" where
  "property obj k = map_of (rev obj) k"

definition typeOfName :: "string \<Rightarrow> EvalType option" where
  "typeOfName x = map_of (map (\<lambda>t. (typeName t, t)) [Quiz, Midsem, Lab, Deadline, Compre, Personal]) x"

definition to_event :: "jobject \<Rightarrow> EvalEvent option" where
  "to_event obj =
     (case (property obj ''id'', property obj ''title'', property obj ''event_date'', property obj ''type'') of
        (Some i, Some (JStr t), Some (JStr d), Some (JStr ty)) \<Rightarrow>
          (case (case i of JNum n \<Rightarrow> Some (IdNum n) | JStr x \<Rightarrow> Some (IdStr x) | _ \<Rightarrow> None,
                 typeOfName ty) of
             (Some i', Some ty') \<Rightarrow>
               (if (case property obj ''time_range'' of None \<Rightarrow> True | Some (JStr _) \<Rightarrow> True | _ \<Rightarrow> False)
                 \<and> (case property obj ''description'' of None \<Rightarrow> True | Some (JStr _) \<Rightarrow> True | _ \<Rightarrow> False)
                 \<and> (case property obj ''isPersonal'' of None \<Rightarrow> True | Some (JBool _) \<Rightarrow> True | _ \<Rightarrow> False)
                then Some \<lparr>ev_id = i', title = t, event_date = d,
                       time_range = (case property obj ''time_range'' of Some (JStr x) \<Rightarrow> Some x | _ \<Rightarrow> None),
                       description = (case property obj ''description'' of Some (JStr x) \<Rightarrow> Some x | _ \<Rightarrow> None),
                       ev_type = ty',
                       isPersonal = (case property obj ''isPersonal'' of Some (JBool b) \<Rightarrow> Some b | _ \<Rightarrow> None)\<rparr>
                else None)
           | _ \<Rightarrow> None)
      | _ \<Rightarrow> None)"

fun all_some :: "'a option list \<Rightarrow> 'a list option" where
  "all_some [] = Some []"
| "all_some (x # xs) =
     (case x of
        None \<Rightarrow> None
      | Some y \<Rightarrow> (case all_some xs of None \<Rightarrow> None | Some ys \<Rightarrow> Some (y # ys)))"

definition JSON_parse :: "string \<Rightarrow> EvalEvent list option" where
  "JSON_parse txt =
     (case tokenize txt of
        None \<Rightarrow> None
      | Some ts \<Rightarrow>
          (case parse_array ts of
             None \<Rightarrow> None
           | Some objs \<Rightarrow> all_some (map to_event objs)))"

section \<open>State and actions\<close>

text \<open>The state of the component \<^verbatim>\<open>Home\<close>, and the browser's \<^verbatim>\<open>localStorage\<close>, which
  the actions read and write.\<close>

datatype ViewMode = daily | weekly | monthly

record State =
  masterEvals :: "EvalEvent list"
  personalEvals :: "EvalEvent list"
  loading :: bool
  viewMode :: ViewMode
  weekOffset :: int
  selectedMonth :: string
  newEventTitle :: string
  newEventTime :: string
  isFormOpen :: bool
  localStorage :: "string \<rightharpoonup> string"

text \<open>The state at the first render, at time \<open>now\<close>, over a given \<^verbatim>\<open>localStorage\<close>.\<close>

definition initialState :: "int \<Rightarrow> int \<Rightarrow> (string \<rightharpoonup> string) \<Rightarrow> State" where
  "initialState tz now store =
     \<lparr>masterEvals = [], personalEvals = [], loading = True, viewMode = daily,
      weekOffset = 0, selectedMonth = toUpperCase (MMM tz now),
      newEventTitle = [], newEventTime = [], isFormOpen = False, localStorage = store\<rparr>"

subsection \<open>The remote source\<close>

text \<open>
  The answer of the remote table to the query of \<^verbatim>\<open>fetchData\<close>: the rows whose
  \<^verbatim>\<open>event_date\<close> is at or after the bound, ascending by \<^verbatim>\<open>event_date\<close>. The column holds
  calendar dates, which are compared as dates.
\<close>

definition gte :: "string \<Rightarrow> string \<Rightarrow> bool" where
  "gte x bound =
     (case (dateNumber x, dateNumber bound) of
        (Some a, Some b) \<Rightarrow> b \<le> a
      | _ \<Rightarrow> False)"

definition evalsQuery :: "string \<Rightarrow> EvalEvent list \<Rightarrow> EvalEvent list" where
  "evalsQuery bound rows =
     array_sort compareEvals (filter (\<lambda>r. gte (event_date r) bound) rows)"

subsection \<open>fetchData\<close>

text \<open>
  \<open>table\<close> is the content of the remote table, \<open>None\<close> when the request fails and
  \<^verbatim>\<open>data\<close> is null. An exception of \<^verbatim>\<open>JSON.parse\<close> leaves \<^verbatim>\<open>fetchData\<close> before
  \<^verbatim>\<open>setLoading(false)\<close>; the model returns the error.
\<close>

definition fetchData :: "int \<Rightarrow> int \<Rightarrow> EvalEvent list option \<Rightarrow> State \<Rightarrow> error + State" where
  "fetchData tz now table s =
     (let data = map_option (evalsQuery (yyyy_MM_dd tz now)) table;
          s1 = (case data of None \<Rightarrow> s | Some rows \<Rightarrow> s\<lparr>masterEvals := rows\<rparr>);
          stored = localStorage s ''personalEvals''
      in case stored of
           None \<Rightarrow> Inr (s1\<lparr>loading := False\<rparr>)
         | Some txt \<Rightarrow>
             (if txt = [] then Inr (s1\<lparr>loading := False\<rparr>)
              else case JSON_parse txt of
                     None \<Rightarrow> Inl SyntaxError
                   | Some parsed \<Rightarrow> Inr (s1\<lparr>personalEvals := parsed, loading := False\<rparr>)))"

subsection \<open>Actions\<close>

text \<open>\<open>now\<close> is the reading of the clock, for \<^verbatim>\<open>Date.now()\<close> and for \<^verbatim>\<open>new Date()\<close>.\<close>

definition addPersonalEval :: "int \<Rightarrow> int \<Rightarrow> State \<Rightarrow> State" where
  "addPersonalEval tz now s =
     (if newEventTitle s = [] then s
      else
        let newEval =
              \<lparr>ev_id = IdNum now,
               title = newEventTitle s,
               event_date = yyyy_MM_dd tz now,
               time_range = Some (if newEventTime s = [] then ''All Day'' else newEventTime s),
               description = Some ''Personal Task'',
               ev_type = Personal,
               isPersonal = Some True\<rparr>;
            updated = personalEvals s @ [newEval]
        in s\<lparr>personalEvals := updated,
             localStorage := (localStorage s)(''personalEvals'' \<mapsto> JSON_stringify updated),
             newEventTitle := [],
             newEventTime := [],
             isFormOpen := False\<rparr>)"

definition deletePersonalEval :: "ident \<Rightarrow> State \<Rightarrow> State" where
  "deletePersonalEval i s =
     (let updated = filter (\<lambda>e. ev_id e \<noteq> i) (personalEvals s)
      in s\<lparr>personalEvals := updated,
           localStorage := (localStorage s)(''personalEvals'' \<mapsto> JSON_stringify updated)\<rparr>)"

subsection \<open>The handlers of the interface\<close>

text \<open>
  What the user can do once the page has loaded: the three buttons of the dock, the two
  arrows of the weekly header, one button for each entry of \<^verbatim>\<open>monthTabs\<close>, the form with
  its two fields, and the delete button of a card.
\<close>

datatype UserEvent =
  ClickDaily | ClickWeekly | ClickMonthly
  | ClickPrevWeek | ClickNextWeek
  | ClickMonthTab nat
  | OpenForm | CancelForm | TypeTitle string | TypeTime string | ClickAdd
  | ClickDelete ident

definition handle :: "int \<Rightarrow> int \<Rightarrow> UserEvent \<Rightarrow> State \<Rightarrow> State" where
  "handle tz now ev s =
     (case ev of
        ClickDaily \<Rightarrow> s\<lparr>viewMode := daily\<rparr>
      | ClickWeekly \<Rightarrow> s\<lparr>viewMode := weekly, weekOffset := 0\<rparr>
      | ClickMonthly \<Rightarrow> s\<lparr>viewMode := monthly\<rparr>
      | ClickPrevWeek \<Rightarrow> s\<lparr>weekOffset := weekOffset s - 1\<rparr>
      | ClickNextWeek \<Rightarrow> s\<lparr>weekOffset := weekOffset s + 1\<rparr>
      | ClickMonthTab i \<Rightarrow>
          (if i < length monthTabs then s\<lparr>selectedMonth := monthTabs ! i\<rparr> else s)
      | OpenForm \<Rightarrow> s\<lparr>isFormOpen := True\<rparr>
      | CancelForm \<Rightarrow> s\<lparr>isFormOpen := False\<rparr>
      | TypeTitle x \<Rightarrow> s\<lparr>newEventTitle := x\<rparr>
      | TypeTime x \<Rightarrow> s\<lparr>newEventTime := x\<rparr>
      | ClickAdd \<Rightarrow> addPersonalEval tz now s
      | ClickDelete i \<Rightarrow> deletePersonalEval i s)"

text \<open>A run of events, each with the time at which it happens.\<close>

fun run :: "int \<Rightarrow> (int \<times> UserEvent) list \<Rightarrow> State \<Rightarrow> State" where
  "run tz [] s = s"
| "run tz ((now, ev) # evs) s = run tz evs (handle tz now ev s)"

section \<open>Example data\<close>

text \<open>A zone at UTC+05:30, noon of Sunday 2024-03-10 and midnight of the same day in that
  zone, and events on a given date.\<close>

definition tzIST :: int where
  "tzIST = 19800000"

definition noon :: int where
  "noon = localDate tzIST 2024 3 10 43200000"

definition midnight :: int where
  "midnight = localDate tzIST 2024 3 10 0"

definition quizOn :: "string \<Rightarrow> EvalEvent" where
  "quizOn d =
     \<lparr>ev_id = IdStr ''q1'', title = ''Quiz 1'', event_date = d, time_range = None,
      description = None, ev_type = Quiz, isPersonal = None\<rparr>"

definition taskOn :: "int \<Rightarrow> string \<Rightarrow> EvalEvent" where
  "taskOn i d =
     \<lparr>ev_id = IdNum i, title = ''Read'', event_date = d, time_range = Some ''All Day'',
      description = Some ''Personal Task'', ev_type = Personal, isPersonal = Some True\<rparr>"

text \<open>The state once \<^verbatim>\<open>fetchData\<close> has run at \<open>noon\<close> over an empty remote table and an
  empty \<^verbatim>\<open>localStorage\<close>; that state with a title typed into the form; the state once
  \<^verbatim>\<open>fetchData\<close> has brought two quizzes; and the \<^verbatim>\<open>localStorage\<close> left by a session of
  the day before in which one task was added.\<close>

definition freshState :: State where
  "freshState = (initialState tzIST noon Map.empty)\<lparr>loading := False\<rparr>"

definition typedState :: State where
  "typedState = freshState\<lparr>newEventTitle := ''Read'', isFormOpen := True\<rparr>"

definition loadedState :: State where
  "loadedState =
     (initialState tzIST noon Map.empty)
       \<lparr>masterEvals := [quizOn ''2024-03-10'', quizOn ''2024-03-12''], loading := False\<rparr>"

definition yesterdayStore :: "string \<rightharpoonup> string" where
  "yesterdayStore = localStorage (addPersonalEval tzIST (noon - msPerDay) typedState)"

section \<open>Local days and instants\<close>

lemma localDay_midnight: "localDay tz (k * msPerDay - tz) = k"
  by (simp add: localDay_def msPerDay_def)

lemma localTimeOfDay_midnight: "localTimeOfDay tz (k * msPerDay - tz) = 0"
  by (simp add: localTimeOfDay_def)

lemma local_split: "t = localDay tz t * msPerDay + localTimeOfDay tz t - tz"
  by (simp add: localDay_def localTimeOfDay_def)

lemma localTimeOfDay_range: "0 \<le> localTimeOfDay tz t \<and> localTimeOfDay tz t < msPerDay"
  by (simp add: localTimeOfDay_def msPerDay_def)

lemma parseISO_dateNumber:
  "parseISO tz x = map_option (\<lambda>k. k * msPerDay - tz) (dateNumber x)"
  by (simp add: parseISO_def dateNumber_def localDate_def split: option.splits)

text \<open>Comparing a local midnight with an instant, by days.\<close>

lemma midnight_less_iff:
  "k * msPerDay - tz < t \<longleftrightarrow> k < localDay tz t \<or> (k = localDay tz t \<and> 0 < localTimeOfDay tz t)"
proof -
  have "k * msPerDay - tz < localDay tz t * msPerDay + localTimeOfDay tz t - tz
        \<longleftrightarrow> k < localDay tz t \<or> (k = localDay tz t \<and> 0 < localTimeOfDay tz t)"
    using localTimeOfDay_range [of tz t] unfolding msPerDay_def by auto
  then show ?thesis using local_split [of t tz] by simp
qed

lemma less_midnight_iff:
  "t < k * msPerDay - tz \<longleftrightarrow> localDay tz t < k"
proof -
  have "localDay tz t * msPerDay + localTimeOfDay tz t - tz < k * msPerDay - tz
        \<longleftrightarrow> localDay tz t < k"
    using localTimeOfDay_range [of tz t] unfolding msPerDay_def by auto
  then show ?thesis using local_split [of t tz] by simp
qed

lemma localDay_add_days: "localDay tz (t + n * msPerDay) = localDay tz t + n"
  by (simp add: localDay_def msPerDay_def algebra_simps)

lemma localTimeOfDay_add_days: "localTimeOfDay tz (t + n * msPerDay) = localTimeOfDay tz t"
proof -
  have "(t + n * msPerDay + tz) mod msPerDay = (t + tz + n * msPerDay) mod msPerDay"
    by (simp add: algebra_simps)
  then show ?thesis by (simp add: localTimeOfDay_def)
qed

lemma startOfDay_eq: "startOfDay tz (Some t) = Some (localDay tz t * msPerDay - tz)"
  using local_split [of t tz] by (simp add: startOfDay_def)

lemma midnight_inj: "k * msPerDay - tz = n * msPerDay - tz \<longleftrightarrow> k = n"
  by (simp add: msPerDay_def)

lemma isSameDay_parseISO:
  "isSameDay tz (parseISO tz x) (Some t) \<longleftrightarrow> dateNumber x = Some (localDay tz t)"
  by (cases "dateNumber x")
     (simp_all add: isSameDay_def parseISO_dateNumber startOfDay_eq localDay_midnight midnight_inj,
      simp add: startOfDay_def)

lemma upcoming_pred:
  assumes "dateNumber x = Some k"
  shows "(isAfter (parseISO tz x) (tomorrow now) \<and> isAfter (addDays (Some now) 14) (parseISO tz x))
   \<longleftrightarrow> localDay tz now + 2 \<le> k \<and>
       (k \<le> localDay tz now + 13 \<or> (k = localDay tz now + 14 \<and> 0 < localTimeOfDay tz now))"
proof -
  have lo: "now + 1 * msPerDay < k * msPerDay - tz \<longleftrightarrow> localDay tz now + 1 < k"
    unfolding less_midnight_iff localDay_add_days ..
  have hi: "k * msPerDay - tz < now + 14 * msPerDay \<longleftrightarrow>
            k < localDay tz now + 14 \<or> (k = localDay tz now + 14 \<and> 0 < localTimeOfDay tz now)"
    unfolding midnight_less_iff localDay_add_days localTimeOfDay_add_days ..
  have "(isAfter (parseISO tz x) (tomorrow now) \<and> isAfter (addDays (Some now) 14) (parseISO tz x))
        \<longleftrightarrow> now + 1 * msPerDay < k * msPerDay - tz \<and> k * msPerDay - tz < now + 14 * msPerDay"
    using assms by (simp add: isAfter_def parseISO_dateNumber tomorrow_def addDays_def)
  also have "\<dots> \<longleftrightarrow> localDay tz now + 2 \<le> k \<and>
       (k \<le> localDay tz now + 13 \<or> (k = localDay tz now + 14 \<and> 0 < localTimeOfDay tz now))"
    unfolding lo hi by auto
  finally show ?thesis .
qed

lemma in_upcomingEvals:
  assumes "dateNumber (event_date e) = Some k"
  shows "e \<in> set (upcomingEvals tz now evs) \<longleftrightarrow>
         e \<in> set evs \<and> localDay tz now + 2 \<le> k \<and>
         (k \<le> localDay tz now + 13 \<or> (k = localDay tz now + 14 \<and> 0 < localTimeOfDay tz now))"
  using upcoming_pred [OF assms, of tz now] by (simp add: upcomingEvals_def Let_def)

lemma in_todayEvals:
  assumes "dateNumber (event_date e) = Some k"
  shows "e \<in> set (todayEvals tz now evs) \<longleftrightarrow> e \<in> set evs \<and> k = localDay tz now"
  using assms by (auto simp add: todayEvals_def isSameDay_parseISO)

lemma in_tomorrowEvals:
  assumes "dateNumber (event_date e) = Some k"
  shows "e \<in> set (tomorrowEvals tz now evs) \<longleftrightarrow> e \<in> set evs \<and> k = localDay tz now + 1"
proof -
  have "tomorrow now = Some (now + 1 * msPerDay)"
    by (simp add: tomorrow_def addDays_def)
  then show ?thesis
    using assms unfolding tomorrowEvals_def
    by (auto simp add: isSameDay_parseISO localDay_add_days simp del: mult_1)
qed

section \<open>The daily view\<close>

text \<open>
  C1 (as amended). \<^verbatim>\<open>today\<close> is an instant, with its time of day, and the date of an event
  is the local midnight of its day. Upcoming holds exactly the events whose midnight is
  strictly after \<open>now\<close> plus one day and strictly before \<open>now\<close> plus fourteen days. Counted
  in calendar days from the day of \<open>now\<close>: the days 2 to 13 are in, the days 0 and 1 are
  out, and day 14 is in whenever the time of day of \<open>now\<close> is after 00:00:00.000.
\<close>

theorem upcomingEvals_window:
  assumes "dateNumber (event_date e) = Some k"
  shows "(e \<in> set (upcomingEvals tz now evs) \<longleftrightarrow>
            e \<in> set evs \<and> now + 1 * msPerDay < k * msPerDay - tz
            \<and> k * msPerDay - tz < now + 14 * msPerDay)
         \<and> (e \<in> set (upcomingEvals tz now evs) \<longleftrightarrow>
            e \<in> set evs \<and> localDay tz now + 2 \<le> k
            \<and> (k \<le> localDay tz now + 13
                \<or> (k = localDay tz now + 14 \<and> 0 < localTimeOfDay tz now)))"
proof
  show "e \<in> set (upcomingEvals tz now evs) \<longleftrightarrow>
          e \<in> set evs \<and> now + 1 * msPerDay < k * msPerDay - tz
          \<and> k * msPerDay - tz < now + 14 * msPerDay"
    using assms
    by (simp add: upcomingEvals_def Let_def isAfter_def parseISO_dateNumber tomorrow_def
        addDays_def)
next
  show "e \<in> set (upcomingEvals tz now evs) \<longleftrightarrow>
          e \<in> set evs \<and> localDay tz now + 2 \<le> k
          \<and> (k \<le> localDay tz now + 13
              \<or> (k = localDay tz now + 14 \<and> 0 < localTimeOfDay tz now))"
    by (rule in_upcomingEvals [OF assms])
qed

theorem upcomingEvals_window_witness:
  "dateNumber (event_date (quizOn ''2024-03-23'')) = Some 19805
   \<and> quizOn ''2024-03-23'' \<in> set (upcomingEvals tzIST noon [quizOn ''2024-03-23''])
   \<and> quizOn ''2024-03-23'' \<notin> set (upcomingEvals tzIST noon [])"
proof -
  have h: "dateNumber (event_date (quizOn ''2024-03-23'')) = Some 19805"
    by code_simp
  have n: "localDay tzIST noon = 19792"
    by code_simp
  have "quizOn ''2024-03-23'' \<in> set (upcomingEvals tzIST noon [quizOn ''2024-03-23'']) \<longleftrightarrow>
          quizOn ''2024-03-23'' \<in> set [quizOn ''2024-03-23'']
          \<and> localDay tzIST noon + 2 \<le> 19805
          \<and> (19805 \<le> localDay tzIST noon + 13
              \<or> (19805 = localDay tzIST noon + 14 \<and> 0 < localTimeOfDay tzIST noon))"
    using upcomingEvals_window [OF h, of tzIST noon "[quizOn ''2024-03-23'']"] by (rule conjunct2)
  moreover have "upcomingEvals tzIST noon [] = []"
    by (simp add: upcomingEvals_def)
  ultimately show ?thesis
    using h by (simp add: n)
qed

text \<open>
  The claim as stated fails on day 14. At noon of 2024-03-10 an event dated 2024-03-24,
  which is the start of that day plus 14 days, is in Upcoming.
\<close>

theorem upcomingEvals_day14_counterexample:
  "parseISO tzIST ''2024-03-24'' = addDays (startOfDay tzIST (Some noon)) 14
   \<and> upcomingEvals tzIST noon [quizOn ''2024-03-24''] = [quizOn ''2024-03-24'']"
  by code_simp

text \<open>
  C2. For an event whose \<^verbatim>\<open>event_date\<close> is a calendar date, membership in the buckets
  Today, Tomorrow and Upcoming of the merged sequence is mutually exclusive: the event is
  in at most one of them.
\<close>

theorem daily_buckets_exclusive:
  assumes "calendarDated e"
  shows "\<not> (e \<in> set (todayEvals tz now (allEvals ms ps))
            \<and> e \<in> set (tomorrowEvals tz now (allEvals ms ps)))
         \<and> \<not> (e \<in> set (todayEvals tz now (allEvals ms ps))
            \<and> e \<in> set (upcomingEvals tz now (allEvals ms ps)))
         \<and> \<not> (e \<in> set (tomorrowEvals tz now (allEvals ms ps))
            \<and> e \<in> set (upcomingEvals tz now (allEvals ms ps)))"
proof -
  from assms obtain k where k: "dateNumber (event_date e) = Some k"
    by (auto simp add: calendarDated_def)
  show ?thesis
    unfolding in_todayEvals [OF k] in_tomorrowEvals [OF k] in_upcomingEvals [OF k]
    by auto
qed

theorem daily_buckets_exclusive_witness:
  "calendarDated (quizOn ''2024-03-11'')
   \<and> quizOn ''2024-03-11'' \<in> set (tomorrowEvals tzIST noon (allEvals [quizOn ''2024-03-11''] []))
   \<and> quizOn ''2024-03-11'' \<notin> set (todayEvals tzIST noon (allEvals [quizOn ''2024-03-11''] []))
   \<and> quizOn ''2024-03-11'' \<notin> set (upcomingEvals tzIST noon (allEvals [quizOn ''2024-03-11''] []))"
proof -
  have h: "calendarDated (quizOn ''2024-03-11'')"
    by code_simp
  have t: "quizOn ''2024-03-11''
             \<in> set (tomorrowEvals tzIST noon (allEvals [quizOn ''2024-03-11''] []))"
    by code_simp
  show ?thesis
    using h t daily_buckets_exclusive [OF h, of tzIST noon "[quizOn ''2024-03-11'']" "[]"]
    by simp
qed

section \<open>Merge and sort\<close>

lemma new_Date_dateNumber:
  "new_Date x = map_option (\<lambda>k. k * msPerDay) (dateNumber x)"
  by (simp add: new_Date_def dateNumber_def split: option.splits)

lemma sortCompare_compareEvals:
  assumes "calendarDated a" and "calendarDated b"
  shows "sortCompare compareEvals a b \<le> 0 \<longleftrightarrow> eventDay a \<le> eventDay b"
  using assms
  by (auto simp add: calendarDated_def sortCompare_def compareEvals_def new_Date_dateNumber
      eventDay_def msPerDay_def)

lemma mset_insertSorted: "mset (insertSorted cmp x ys) = add_mset x (mset ys)"
  by (induction ys) simp_all

lemma mset_array_sort: "mset (array_sort cmp xs) = mset xs"
  by (induction xs) (simp_all add: array_sort_def mset_insertSorted)

lemma set_array_sort: "set (array_sort cmp xs) = set xs"
  using mset_array_sort [of cmp xs] by (metis set_mset_mset)

lemma insertSorted_insort_key:
  assumes "calendarDated x" and "\<forall>y \<in> set ys. calendarDated y"
  shows "insertSorted compareEvals x ys = insort_key eventDay x ys"
  using assms by (induction ys) (simp_all add: sortCompare_compareEvals)

lemma array_sort_sort_key:
  assumes "\<forall>x \<in> set xs. calendarDated x"
  shows "array_sort compareEvals xs = sort_key eventDay xs"
  using assms
proof (induction xs)
  case Nil
  then show ?case by (simp add: array_sort_def)
next
  case (Cons x xs)
  then have ih: "array_sort compareEvals xs = sort_key eventDay xs"
    by simp
  have "array_sort compareEvals (x # xs) = insertSorted compareEvals x (array_sort compareEvals xs)"
    by (simp add: array_sort_def)
  also have "\<dots> = insort_key eventDay x (array_sort compareEvals xs)"
    using Cons.prems by (intro insertSorted_insort_key) (simp_all add: set_array_sort)
  finally show ?case
    by (simp add: ih)
qed

text \<open>
  C3. For calendar-dated events the merged sequence holds the elements of the remote and
  of the personal sequence, each as often as the two hold it, in ascending order of date;
  and the events of any one date stand in it as in the concatenation: the remote ones,
  in their order, before the personal ones, in theirs.
\<close>

theorem allEvals_merge_sorted:
  assumes "list_all calendarDated (ms @ ps)"
  shows "mset (allEvals ms ps) = mset ms + mset ps
         \<and> sorted (map eventDay (allEvals ms ps))
         \<and> (\<forall>k. filter (\<lambda>e. eventDay e = k) (allEvals ms ps)
                  = filter (\<lambda>e. eventDay e = k) ms @ filter (\<lambda>e. eventDay e = k) ps)"
proof -
  from assms have "\<forall>x \<in> set (ms @ ps). calendarDated x"
    by (simp add: list_all_iff)
  then have eq: "allEvals ms ps = sort_key eventDay (ms @ ps)"
    unfolding allEvals_def by (rule array_sort_sort_key)
  show ?thesis
    unfolding eq by (simp add: sort_key_stable)
qed

theorem allEvals_merge_sorted_witness:
  "list_all calendarDated
     ([quizOn ''2024-03-12'', quizOn ''2024-03-10''] @ [taskOn 5 ''2024-03-10'', taskOn 6 ''2024-03-11''])
   \<and> allEvals [quizOn ''2024-03-12'', quizOn ''2024-03-10''] [taskOn 5 ''2024-03-10'', taskOn 6 ''2024-03-11'']
       = [quizOn ''2024-03-10'', taskOn 5 ''2024-03-10'', taskOn 6 ''2024-03-11'', quizOn ''2024-03-12'']
   \<and> sorted (map eventDay
        (allEvals [quizOn ''2024-03-12'', quizOn ''2024-03-10''] [taskOn 5 ''2024-03-10'', taskOn 6 ''2024-03-11'']))"
proof -
  have h: "list_all calendarDated
     ([quizOn ''2024-03-12'', quizOn ''2024-03-10''] @ [taskOn 5 ''2024-03-10'', taskOn 6 ''2024-03-11''])"
    by code_simp
  have c: "allEvals [quizOn ''2024-03-12'', quizOn ''2024-03-10''] [taskOn 5 ''2024-03-10'', taskOn 6 ''2024-03-11'']
       = [quizOn ''2024-03-10'', taskOn 5 ''2024-03-10'', taskOn 6 ''2024-03-11'', quizOn ''2024-03-12'']"
    by code_simp
  show ?thesis
    using h c allEvals_merge_sorted [OF h] by blast
qed

section \<open>The weekly view\<close>

lemma getDay_range: "0 \<le> getDay tz t \<and> getDay tz t \<le> 6"
  by (simp add: getDay_def)

lemma startOfWeek_eq:
  "startOfWeek tz (Some t) = Some ((localDay tz t - getDay tz t) * msPerDay - tz)"
proof -
  have "t - getDay tz t * msPerDay - localTimeOfDay tz t
        = (localDay tz t - getDay tz t) * msPerDay - tz"
    using local_split [of t tz] by (simp add: algebra_simps)
  then show ?thesis by (simp add: startOfWeek_def)
qed

lemma endOfWeek_eq:
  "endOfWeek tz (Some t) = Some ((localDay tz t - getDay tz t + 7) * msPerDay - 1 - tz)"
proof -
  have "t + (6 - getDay tz t) * msPerDay - localTimeOfDay tz t + (msPerDay - 1)
        = (localDay tz t - getDay tz t + 7) * msPerDay - 1 - tz"
    using local_split [of t tz] by (simp add: algebra_simps)
  then show ?thesis by (simp add: endOfWeek_def)
qed

text \<open>The first day of the week of \<open>now\<close>, moved by \<open>weekOffset\<close> weeks.\<close>

lemma getDay_midnight: "getDay tz (k * msPerDay - tz) = (k + 4) mod 7"
  by (simp add: getDay_def localDay_midnight)

lemma weekStart_sunday: "(localDay tz t - getDay tz t + 7 * w + 4) mod 7 = 0"
  unfolding getDay_def by presburger

lemma currentWeekStart_eq:
  "currentWeekStart tz now w = Some ((localDay tz now - getDay tz now + 7 * w) * msPerDay - tz)"
  by (simp add: currentWeekStart_def addWeeks_def addDays_def startOfWeek_eq algebra_simps)

lemma currentWeekEnd_eq:
  "currentWeekEnd tz now w =
     Some ((localDay tz now - getDay tz now + 7 * w + 7) * msPerDay - 1 - tz)"
  unfolding currentWeekEnd_def currentWeekStart_eq endOfWeek_eq localDay_midnight getDay_midnight
    weekStart_sunday by simp

lemma in_weeklyEvals:
  assumes "dateNumber (event_date e) = Some k"
  shows "e \<in> set (weeklyEvals tz now w evs) \<longleftrightarrow>
           e \<in> set evs \<and> localDay tz now - getDay tz now + 7 * w \<le> k
           \<and> k \<le> localDay tz now - getDay tz now + 7 * w + 6"
  using assms unfolding weeklyEvals_def currentWeekStart_eq currentWeekEnd_eq
  by (auto simp add: isWithinInterval_def parseISO_dateNumber msPerDay_def)

text \<open>
  C4. The week of the weekly view runs from local midnight of the Sunday on or before
  the day of \<open>now\<close>, moved by \<open>weekOffset\<close> weeks, to the last millisecond of the
  Saturday after it. For offset 0 that week contains the day of \<open>now\<close>. The bucket holds
  exactly the calendar-dated events of the merged sequence whose day is one of the seven,
  so an event on the first day is in and an event on the day before is out.
\<close>

theorem weeklyEvals_interval:
  assumes "dateNumber (event_date e) = Some k"
  shows "currentWeekStart tz now w
           = Some ((localDay tz now - getDay tz now + 7 * w) * msPerDay - tz)
         \<and> currentWeekEnd tz now w
           = Some ((localDay tz now - getDay tz now + 7 * w + 7) * msPerDay - 1 - tz)
         \<and> localDay tz now - getDay tz now \<le> localDay tz now
         \<and> localDay tz now \<le> localDay tz now - getDay tz now + 6
         \<and> (e \<in> set (weeklyEvals tz now w evs) \<longleftrightarrow>
              e \<in> set evs \<and> localDay tz now - getDay tz now + 7 * w \<le> k
              \<and> k \<le> localDay tz now - getDay tz now + 7 * w + 6)"
  using in_weeklyEvals [OF assms, of tz now w evs] getDay_range [of tz now]
  by (simp add: currentWeekStart_eq currentWeekEnd_eq)

theorem weeklyEvals_interval_witness:
  "dateNumber (event_date (quizOn ''2024-03-10'')) = Some 19792
   \<and> localDay tzIST (noon + 3 * msPerDay) - getDay tzIST (noon + 3 * msPerDay) = 19792
   \<and> quizOn ''2024-03-10''
       \<in> set (weeklyEvals tzIST (noon + 3 * msPerDay) 0 [quizOn ''2024-03-09'', quizOn ''2024-03-10''])"
proof -
  have h: "dateNumber (event_date (quizOn ''2024-03-10'')) = Some 19792"
    by code_simp
  have n: "localDay tzIST (noon + 3 * msPerDay) - getDay tzIST (noon + 3 * msPerDay) = 19792"
    by code_simp
  show ?thesis
    using h n
      weeklyEvals_interval [OF h, of tzIST "noon + 3 * msPerDay" 0
        "[quizOn ''2024-03-09'', quizOn ''2024-03-10'']"]
    by simp
qed

section \<open>The monthly view\<close>

lemma month_from_march_range: "0 \<le> month_from_march doy \<and> month_from_march doy \<le> 11"
  by (simp add: month_from_march_def)

lemma month_number_range:
  "0 \<le> mp \<Longrightarrow> mp \<le> 11 \<Longrightarrow>
   0 \<le> (if mp < 10 then mp + 3 else mp - 9) - 1 \<and> (if mp < 10 then mp + 3 else mp - 9) - 1 \<le> (11::int)"
  by simp

lemma getMonth_range: "0 \<le> getMonth tz t \<and> getMonth tz t \<le> 11"
  unfolding getMonth_def civil_from_days_def Let_def fst_conv snd_conv
  by (rule month_number_range) (simp_all add: month_from_march_range)

lemma distinct_labels: "distinct (map toUpperCase monthAbbr)"
  by code_simp

lemma length_monthAbbr: "length monthAbbr = 12"
  by (simp add: monthAbbr_def)

lemma label_eq_iff:
  assumes "0 \<le> a" "a \<le> 11" "0 \<le> b" "b \<le> 11"
  shows "toUpperCase (monthAbbr ! nat a) = toUpperCase (monthAbbr ! nat b) \<longleftrightarrow> a = b"
proof -
  have a: "nat a < length (map toUpperCase monthAbbr)" and b: "nat b < length (map toUpperCase monthAbbr)"
    using assms by (simp_all add: length_monthAbbr)
  have "map toUpperCase monthAbbr ! nat a = map toUpperCase monthAbbr ! nat b \<longleftrightarrow> nat a = nat b"
    using distinct_labels a b by (rule nth_eq_iff_index_eq)
  moreover have "nat a = nat b \<longleftrightarrow> a = b"
    using assms by auto
  ultimately show ?thesis
    using a b by simp
qed

lemma monthTabs_take: "monthTabs = take 5 (map toUpperCase monthAbbr)"
  by code_simp

lemma label_not_tab:
  assumes "5 \<le> m" "m \<le> 11"
  shows "toUpperCase (monthAbbr ! nat m) \<notin> set monthTabs"
proof
  assume "toUpperCase (monthAbbr ! nat m) \<in> set monthTabs"
  then obtain i where i: "i < 5" "take 5 (map toUpperCase monthAbbr) ! i = toUpperCase (monthAbbr ! nat m)"
    unfolding monthTabs_take in_set_conv_nth by (auto simp add: length_monthAbbr)
  then have "toUpperCase (monthAbbr ! nat (int i)) = toUpperCase (monthAbbr ! nat m)"
    by (simp add: length_monthAbbr)
  moreover have "toUpperCase (monthAbbr ! nat (int i)) = toUpperCase (monthAbbr ! nat m)
                 \<longleftrightarrow> int i = m"
    using i(1) assms by (intro label_eq_iff) simp_all
  ultimately have "int i = m"
    by simp
  with i(1) assms show False by simp
qed

lemma filter_throw_Inr:
  assumes "\<forall>x \<in> set xs. p x = Inr (q x)"
  shows "filter_throw p xs = Inr (filter q xs)"
  using assms by (induction xs) simp_all

lemma eventMonth_calendarDated:
  assumes "calendarDated e"
  obtains t where "parseISO tz (event_date e) = Some t" and "eventMonth tz e = Some (getMonth tz t)"
  using assms by (auto simp add: calendarDated_def parseISO_dateNumber eventMonth_def)

lemma monthlyEvals_eq:
  assumes valid: "list_all calendarDated evs" and m: "0 \<le> m" "m \<le> 11"
  shows "monthlyEvals tz (toUpperCase (monthAbbr ! nat m)) evs
         = Inr (filter (\<lambda>e. eventMonth tz e = Some m) evs)"
  unfolding monthlyEvals_def
proof (rule filter_throw_Inr, rule ballI)
  fix e assume "e \<in> set evs"
  with valid have "calendarDated e"
    by (simp add: list_all_iff)
  then obtain t where t: "parseISO tz (event_date e) = Some t" "eventMonth tz e = Some (getMonth tz t)"
    by (rule eventMonth_calendarDated)
  have "toUpperCase (MMM tz t) = toUpperCase (monthAbbr ! nat m) \<longleftrightarrow> getMonth tz t = m"
    unfolding MMM_def using getMonth_range [of tz t] m by (intro label_eq_iff) simp_all
  then show "(case format_MMM tz (parseISO tz (event_date e)) of
               Inl err \<Rightarrow> Inl err
             | Inr s \<Rightarrow> Inr (toUpperCase s = toUpperCase (monthAbbr ! nat m)))
             = Inr (eventMonth tz e = Some m)"
    by (simp add: t format_MMM_def)
qed


text \<open>
  C5. The monthly bucket is keyed on the month label alone. With the label of month \<open>m\<close>
  selected and calendar-dated events, the bucket is the events whose date is in month
  \<open>m\<close>; the year plays no part, so an event of month \<open>m\<close> in a year \<open>y\<close> and one of
  month \<open>m\<close> in the year \<open>y + 1\<close> are both in it.
\<close>

theorem monthlyEvals_year_agnostic:
  assumes "list_all calendarDated evs" and "0 \<le> m" and "m \<le> 11"
  shows "monthlyEvals tz (toUpperCase (monthAbbr ! nat m)) evs
           = Inr (filter (\<lambda>e. eventMonth tz e = Some m) evs)
         \<and> (\<forall>e1 e2 y. e1 \<in> set evs \<and> e2 \<in> set evs
               \<and> eventMonth tz e1 = Some m \<and> eventYear tz e1 = Some y
               \<and> eventMonth tz e2 = Some m \<and> eventYear tz e2 = Some (y + 1)
               \<longrightarrow> (\<exists>bucket. monthlyEvals tz (toUpperCase (monthAbbr ! nat m)) evs = Inr bucket
                      \<and> e1 \<in> set bucket \<and> e2 \<in> set bucket))"
  using monthlyEvals_eq [OF assms, of tz] by simp

theorem monthlyEvals_year_agnostic_witness:
  "list_all calendarDated [quizOn ''2024-03-10'', quizOn ''2024-04-01'', quizOn ''2025-03-20'']
   \<and> eventYear tzIST (quizOn ''2024-03-10'') = Some 2024
   \<and> eventYear tzIST (quizOn ''2025-03-20'') = Some 2025
   \<and> monthlyEvals tzIST ''MAR'' [quizOn ''2024-03-10'', quizOn ''2024-04-01'', quizOn ''2025-03-20'']
       = Inr [quizOn ''2024-03-10'', quizOn ''2025-03-20'']"
proof -
  have h: "list_all calendarDated [quizOn ''2024-03-10'', quizOn ''2024-04-01'', quizOn ''2025-03-20'']"
    by code_simp
  have l: "toUpperCase (monthAbbr ! nat 2) = ''MAR''"
    by code_simp
  have y: "eventYear tzIST (quizOn ''2024-03-10'') = Some 2024"
    "eventYear tzIST (quizOn ''2025-03-20'') = Some 2025"
    by code_simp+
  have f: "filter (\<lambda>e. eventMonth tzIST e = Some 2)
             [quizOn ''2024-03-10'', quizOn ''2024-04-01'', quizOn ''2025-03-20'']
           = [quizOn ''2024-03-10'', quizOn ''2025-03-20'']"
    by code_simp
  from monthlyEvals_year_agnostic [OF h, of 2 tzIST]
  have "monthlyEvals tzIST (toUpperCase (monthAbbr ! nat 2))
          [quizOn ''2024-03-10'', quizOn ''2024-04-01'', quizOn ''2025-03-20'']
        = Inr (filter (\<lambda>e. eventMonth tzIST e = Some 2)
             [quizOn ''2024-03-10'', quizOn ''2024-04-01'', quizOn ''2025-03-20''])"
    by simp
  then show ?thesis
    using h y by (simp only: l f)
qed

subsection \<open>The label selected at load time\<close>

lemma selectedMonth_addPersonalEval: "selectedMonth (addPersonalEval tz now s) = selectedMonth s"
  by (simp add: addPersonalEval_def Let_def)

lemma selectedMonth_deletePersonalEval: "selectedMonth (deletePersonalEval i s) = selectedMonth s"
  by (simp add: deletePersonalEval_def Let_def)

lemma selectedMonth_handle:
  "selectedMonth (handle tz now ev s) = selectedMonth s
   \<or> selectedMonth (handle tz now ev s) \<in> set monthTabs"
  by (cases ev)
     (simp_all add: handle_def selectedMonth_addPersonalEval selectedMonth_deletePersonalEval)

lemma selectedMonth_run:
  assumes "L \<notin> set monthTabs" and "selectedMonth s \<noteq> L"
  shows "selectedMonth (run tz evs s) \<noteq> L"
  using assms(2)
proof (induction evs arbitrary: s)
  case Nil
  then show ?case by simp
next
  case (Cons a evs)
  obtain now ev where a: "a = (now, ev)"
    by (cases a)
  have "selectedMonth (handle tz now ev s) \<noteq> L"
    using selectedMonth_handle [of tz now ev s] Cons.prems assms(1) by auto
  then show ?case
    by (simp add: a Cons.IH)
qed

text \<open>
  C10. At load time the selected label is the label of the month of \<open>now\<close>. When that
  month is June or later the label is none of the five tabs; the monthly bucket for it is
  then the calendar-dated events of that month; and from a state whose selected label is
  another one, no run of events of the interface selects it again.
\<close>

theorem initial_selectedMonth_outside_tabs:
  assumes "5 \<le> getMonth tz now" and "list_all calendarDated evs"
  shows "selectedMonth (initialState tz now store) = toUpperCase (MMM tz now)
         \<and> selectedMonth (initialState tz now store) \<notin> set monthTabs
         \<and> monthlyEvals tz (selectedMonth (initialState tz now store)) evs
             = Inr (filter (\<lambda>e. eventMonth tz e = Some (getMonth tz now)) evs)
         \<and> (\<forall>s uevs. selectedMonth s \<noteq> selectedMonth (initialState tz now store)
               \<longrightarrow> selectedMonth (run tz uevs s) \<noteq> selectedMonth (initialState tz now store))"
proof -
  have r: "0 \<le> getMonth tz now" "getMonth tz now \<le> 11"
    using getMonth_range [of tz now] by simp_all
  have i: "selectedMonth (initialState tz now store) = toUpperCase (monthAbbr ! nat (getMonth tz now))"
    by (simp add: initialState_def MMM_def)
  have t: "toUpperCase (monthAbbr ! nat (getMonth tz now)) \<notin> set monthTabs"
    using assms(1) r(2) by (rule label_not_tab)
  show ?thesis
    unfolding i
    using t monthlyEvals_eq [OF assms(2) r, of tz] selectedMonth_run [OF t]
    by (simp add: MMM_def)
qed

theorem initial_selectedMonth_outside_tabs_witness:
  "5 \<le> getMonth tzIST (noon + 214 * msPerDay)
   \<and> list_all calendarDated [quizOn ''2024-10-20'', quizOn ''2024-11-02'', quizOn ''2025-10-01'']
   \<and> selectedMonth (initialState tzIST (noon + 214 * msPerDay) Map.empty) = ''OCT''
   \<and> ''OCT'' \<notin> set monthTabs
   \<and> monthlyEvals tzIST ''OCT'' [quizOn ''2024-10-20'', quizOn ''2024-11-02'', quizOn ''2025-10-01'']
       = Inr [quizOn ''2024-10-20'', quizOn ''2025-10-01'']
   \<and> selectedMonth (run tzIST [(noon + 214 * msPerDay, ClickMonthTab 2), (noon + 214 * msPerDay, ClickMonthly)]
        (initialState tzIST (noon + 214 * msPerDay) Map.empty)) = ''MAR''"
proof -
  have g: "5 \<le> getMonth tzIST (noon + 214 * msPerDay)"
    by code_simp
  have gm: "getMonth tzIST (noon + 214 * msPerDay) = 9"
    by code_simp
  have h: "list_all calendarDated [quizOn ''2024-10-20'', quizOn ''2024-11-02'', quizOn ''2025-10-01'']"
    by code_simp
  have l: "toUpperCase (MMM tzIST (noon + 214 * msPerDay)) = ''OCT''"
    by code_simp
  have f: "filter (\<lambda>e. eventMonth tzIST e = Some 9)
             [quizOn ''2024-10-20'', quizOn ''2024-11-02'', quizOn ''2025-10-01'']
           = [quizOn ''2024-10-20'', quizOn ''2025-10-01'']"
    by code_simp
  have u: "selectedMonth (run tzIST [(noon + 214 * msPerDay, ClickMonthTab 2), (noon + 214 * msPerDay, ClickMonthly)]
        (initialState tzIST (noon + 214 * msPerDay) Map.empty)) = ''MAR''"
    by (simp add: handle_def monthTabs_def)
  note w = initial_selectedMonth_outside_tabs [OF g h, of Map.empty]
  from w have a: "selectedMonth (initialState tzIST (noon + 214 * msPerDay) Map.empty) = ''OCT''"
    by (simp only: l)
  from w have "selectedMonth (initialState tzIST (noon + 214 * msPerDay) Map.empty) \<notin> set monthTabs"
    by (rule conjunct1 [OF conjunct2])
  then have b: "''OCT'' \<notin> set monthTabs"
    unfolding a .
  from w have "monthlyEvals tzIST (selectedMonth (initialState tzIST (noon + 214 * msPerDay) Map.empty))
                 [quizOn ''2024-10-20'', quizOn ''2024-11-02'', quizOn ''2025-10-01'']
               = Inr (filter (\<lambda>e. eventMonth tzIST e = Some (getMonth tzIST (noon + 214 * msPerDay)))
                   [quizOn ''2024-10-20'', quizOn ''2024-11-02'', quizOn ''2025-10-01''])"
    by (rule conjunct1 [OF conjunct2 [OF conjunct2]])
  then have c: "monthlyEvals tzIST ''OCT'' [quizOn ''2024-10-20'', quizOn ''2024-11-02'', quizOn ''2025-10-01'']
                = Inr [quizOn ''2024-10-20'', quizOn ''2025-10-01'']"
    unfolding a gm f .
  show ?thesis
    using g h a b c u by blast
qed

section \<open>Personal tasks\<close>

lemma filter_other_ids:
  assumes "i \<notin> ev_id ` set xs"
  shows "filter (\<lambda>e. ev_id e \<noteq> i) xs = xs"
  using assms by (induction xs) auto

lemma freshState_reached:
  "fetchData tzIST noon (Some []) (initialState tzIST noon Map.empty) = Inr freshState"
  by (simp add: fetchData_def evalsQuery_def array_sort_def initialState_def freshState_def)

text \<open>
  C6. With an empty title \<^verbatim>\<open>addPersonalEval\<close> returns at once: the state, with the
  personal list and the store in it, is the one before, and nothing is thrown. The same
  holds for a click on the button that calls it.
\<close>

theorem addPersonalEval_empty_title:
  assumes "newEventTitle s = []"
  shows "addPersonalEval tz now s = s \<and> handle tz now ClickAdd s = s"
  using assms by (simp add: addPersonalEval_def handle_def)

theorem addPersonalEval_empty_title_witness:
  "newEventTitle freshState = []
   \<and> addPersonalEval tzIST noon freshState = freshState
   \<and> handle tzIST noon ClickAdd freshState = freshState"
proof -
  have h: "newEventTitle freshState = []"
    by (simp add: freshState_def initialState_def)
  show ?thesis
    using h addPersonalEval_empty_title [OF h, of tzIST noon] by simp
qed

text \<open>
  C7 (as amended). \<^verbatim>\<open>deletePersonalEval\<close> leaves in the personal list the elements whose
  id is not the given one and overwrites the slot of the store with the serialization of
  that list. For an id that no element has, the list is the one before and the slot then
  holds its serialization; the state as a whole is unchanged when the slot held that
  serialization already.
\<close>

theorem deletePersonalEval_overwrites:
  "personalEvals (deletePersonalEval i s) = filter (\<lambda>e. ev_id e \<noteq> i) (personalEvals s)
   \<and> localStorage (deletePersonalEval i s)
       = (localStorage s)(''personalEvals'' \<mapsto>
            JSON_stringify (filter (\<lambda>e. ev_id e \<noteq> i) (personalEvals s)))
   \<and> (i \<notin> ev_id ` set (personalEvals s) \<longrightarrow>
        personalEvals (deletePersonalEval i s) = personalEvals s
        \<and> localStorage (deletePersonalEval i s) ''personalEvals''
            = Some (JSON_stringify (personalEvals s)))
   \<and> (i \<notin> ev_id ` set (personalEvals s)
        \<and> localStorage s ''personalEvals'' = Some (JSON_stringify (personalEvals s)) \<longrightarrow>
        deletePersonalEval i s = s)"
proof -
  have "deletePersonalEval i s = s"
    if "i \<notin> ev_id ` set (personalEvals s)"
      and "localStorage s ''personalEvals'' = Some (JSON_stringify (personalEvals s))"
  proof -
    have "(localStorage s)(''personalEvals'' \<mapsto> JSON_stringify (personalEvals s)) = localStorage s"
      using that(2) by (rule map_upd_triv)
    then show ?thesis
      by (simp add: deletePersonalEval_def Let_def filter_other_ids [OF that(1)])
  qed
  then show ?thesis
    by (auto simp add: deletePersonalEval_def Let_def filter_other_ids)
qed

theorem deletePersonalEval_overwrites_witness:
  "IdNum 5 \<notin> ev_id ` set (personalEvals (addPersonalEval tzIST noon typedState))
   \<and> localStorage (addPersonalEval tzIST noon typedState) ''personalEvals''
       = Some (JSON_stringify (personalEvals (addPersonalEval tzIST noon typedState)))
   \<and> personalEvals (addPersonalEval tzIST noon typedState) = [taskOn noon ''2024-03-10'']
   \<and> deletePersonalEval (IdNum 5) (addPersonalEval tzIST noon typedState)
       = addPersonalEval tzIST noon typedState
   \<and> personalEvals (deletePersonalEval (IdNum noon) (addPersonalEval tzIST noon typedState)) = []"
proof -
  have p: "personalEvals (addPersonalEval tzIST noon typedState) = [taskOn noon ''2024-03-10'']"
    by code_simp
  have n: "IdNum 5 \<noteq> IdNum noon"
    by code_simp
  have a: "IdNum 5 \<notin> ev_id ` set (personalEvals (addPersonalEval tzIST noon typedState))"
    using n by (simp add: p taskOn_def)
  have b: "localStorage (addPersonalEval tzIST noon typedState) ''personalEvals''
       = Some (JSON_stringify (personalEvals (addPersonalEval tzIST noon typedState)))"
    by (simp add: addPersonalEval_def Let_def typedState_def)
  have c: "filter (\<lambda>e. ev_id e \<noteq> IdNum noon) [taskOn noon ''2024-03-10''] = []"
    by (simp add: taskOn_def)
  show ?thesis
    using a b p c deletePersonalEval_overwrites [of "IdNum 5" "addPersonalEval tzIST noon typedState"]
      deletePersonalEval_overwrites [of "IdNum noon" "addPersonalEval tzIST noon typedState"]
    by simp
qed

text \<open>
  The claim as stated fails on a store without the slot: after a load over an empty
  store, deleting an id that no task has writes \<^verbatim>\<open>[]\<close> into the slot, which was absent.
\<close>

theorem deletePersonalEval_absent_store_counterexample:
  "fetchData tzIST noon (Some []) (initialState tzIST noon Map.empty) = Inr freshState
   \<and> IdNum 5 \<notin> ev_id ` set (personalEvals freshState)
   \<and> localStorage freshState ''personalEvals'' = None
   \<and> localStorage (deletePersonalEval (IdNum 5) freshState) ''personalEvals'' = Some ''[]''"
  using freshState_reached
  by (simp add: deletePersonalEval_def freshState_def initialState_def JSON_stringify_def)


subsection \<open>Create, then delete\<close>

lemma personalEvals_add_delete:
  assumes "newEventTitle s \<noteq> []" and "IdNum now \<notin> ev_id ` set (personalEvals s)"
  shows "personalEvals (deletePersonalEval (IdNum now) (addPersonalEval tz now s)) = personalEvals s"
  using assms by (simp add: deletePersonalEval_def addPersonalEval_def Let_def filter_other_ids)

text \<open>
  C8 (as amended). For a non-empty title and a clock reading that is the id of no task
  in the list, creating a task and deleting it by its id leaves the personal list as it
  was and the slot of the store holding the serialization of that list; the store is
  then exactly the one before whenever the slot held that serialization before.
\<close>

theorem add_then_delete_restores:
  assumes "newEventTitle s \<noteq> []" and "IdNum now \<notin> ev_id ` set (personalEvals s)"
  shows "personalEvals (deletePersonalEval (IdNum now) (addPersonalEval tz now s)) = personalEvals s
         \<and> localStorage (deletePersonalEval (IdNum now) (addPersonalEval tz now s))
             = (localStorage s)(''personalEvals'' \<mapsto> JSON_stringify (personalEvals s))
         \<and> (localStorage s ''personalEvals'' = Some (JSON_stringify (personalEvals s)) \<longrightarrow>
              localStorage (deletePersonalEval (IdNum now) (addPersonalEval tz now s))
                = localStorage s)"
proof -
  have p: "personalEvals (deletePersonalEval (IdNum now) (addPersonalEval tz now s)) = personalEvals s"
    using assms by (rule personalEvals_add_delete)
  have l: "localStorage (deletePersonalEval (IdNum now) (addPersonalEval tz now s))
             = (localStorage s)(''personalEvals'' \<mapsto> JSON_stringify (personalEvals s))"
    using assms by (simp add: deletePersonalEval_def addPersonalEval_def Let_def filter_other_ids)
  have "(localStorage s)(''personalEvals'' \<mapsto> JSON_stringify (personalEvals s)) = localStorage s"
    if "localStorage s ''personalEvals'' = Some (JSON_stringify (personalEvals s))"
    using that by (rule map_upd_triv)
  with p l show ?thesis
    by simp
qed

theorem add_then_delete_restores_witness:
  "newEventTitle ((addPersonalEval tzIST noon typedState)\<lparr>newEventTitle := ''Write''\<rparr>) \<noteq> []
   \<and> IdNum (noon + 60000) \<notin> ev_id ` set (personalEvals
         ((addPersonalEval tzIST noon typedState)\<lparr>newEventTitle := ''Write''\<rparr>))
   \<and> localStorage ((addPersonalEval tzIST noon typedState)\<lparr>newEventTitle := ''Write''\<rparr>) ''personalEvals''
       = Some (JSON_stringify [taskOn noon ''2024-03-10''])
   \<and> localStorage (deletePersonalEval (IdNum (noon + 60000))
         (addPersonalEval tzIST (noon + 60000)
            ((addPersonalEval tzIST noon typedState)\<lparr>newEventTitle := ''Write''\<rparr>))) ''personalEvals''
       = Some (JSON_stringify [taskOn noon ''2024-03-10''])"
proof -
  let ?s = "(addPersonalEval tzIST noon typedState)\<lparr>newEventTitle := ''Write''\<rparr>"
  have p: "personalEvals ?s = [taskOn noon ''2024-03-10'']"
    by code_simp
  have t: "newEventTitle ?s \<noteq> []"
    by simp
  have n: "IdNum (noon + 60000) \<noteq> IdNum noon"
    by simp
  have i: "IdNum (noon + 60000) \<notin> ev_id ` set (personalEvals ?s)"
    unfolding p using n by (simp add: taskOn_def)
  have l: "localStorage ?s ''personalEvals'' = Some (JSON_stringify [taskOn noon ''2024-03-10''])"
    by code_simp
  from add_then_delete_restores [OF t i, of tzIST]
  have "localStorage (deletePersonalEval (IdNum (noon + 60000)) (addPersonalEval tzIST (noon + 60000) ?s))
          = (localStorage ?s)(''personalEvals'' \<mapsto> JSON_stringify (personalEvals ?s))"
    by (rule conjunct1 [OF conjunct2])
  then have "localStorage (deletePersonalEval (IdNum (noon + 60000)) (addPersonalEval tzIST (noon + 60000) ?s))
               ''personalEvals'' = Some (JSON_stringify [taskOn noon ''2024-03-10''])"
    unfolding p by simp
  with t i l show ?thesis
    by blast
qed

text \<open>
  The claim as stated fails on the first use: after a load over an empty store, adding
  a task and deleting it leaves \<^verbatim>\<open>[]\<close> in the slot, which was absent before.
\<close>

theorem add_then_delete_absent_store_counterexample:
  "fetchData tzIST noon (Some []) (initialState tzIST noon Map.empty) = Inr freshState
   \<and> typedState = handle tzIST noon (TypeTitle ''Read'') (handle tzIST noon OpenForm freshState)
   \<and> personalEvals typedState = []
   \<and> localStorage typedState ''personalEvals'' = None
   \<and> personalEvals (addPersonalEval tzIST noon typedState) = [taskOn noon ''2024-03-10'']
   \<and> localStorage (deletePersonalEval (IdNum noon) (addPersonalEval tzIST noon typedState))
         ''personalEvals'' = Some ''[]''"
proof -
  have p: "personalEvals (addPersonalEval tzIST noon typedState) = [taskOn noon ''2024-03-10'']"
    by code_simp
  have d: "localStorage (deletePersonalEval (IdNum noon) (addPersonalEval tzIST noon typedState))
         ''personalEvals'' = Some ''[]''"
    by code_simp
  have t: "typedState = handle tzIST noon (TypeTitle ''Read'') (handle tzIST noon OpenForm freshState)"
    by (simp add: typedState_def handle_def)
  have e: "personalEvals typedState = []" "localStorage typedState ''personalEvals'' = None"
    by (simp_all add: typedState_def freshState_def initialState_def)
  show ?thesis
    using freshState_reached p d t e by blast
qed

section \<open>Loading\<close>

lemma gte_evalsQuery:
  "e \<in> set (evalsQuery bound rows) \<Longrightarrow> gte (event_date e) bound"
  by (simp add: evalsQuery_def set_array_sort)

lemma fetchData_masterEvals:
  assumes "fetchData tz now table s = Inr s'"
  shows "masterEvals s' = (case table of None \<Rightarrow> masterEvals s
                           | Some rows \<Rightarrow> evalsQuery (yyyy_MM_dd tz now) rows)"
  using assms
  by (auto simp add: fetchData_def Let_def split: option.splits if_splits)

lemma fetchData_personalEvals:
  assumes "fetchData tz now table s = Inr s'"
  shows "(case localStorage s ''personalEvals'' of
            None \<Rightarrow> personalEvals s' = personalEvals s
          | Some txt \<Rightarrow> if txt = [] then personalEvals s' = personalEvals s
                        else JSON_parse txt = Some (personalEvals s'))"
  using assms
  by (auto simp add: fetchData_def Let_def split: option.splits if_splits)

text \<open>
  C9 (as amended). After \<^verbatim>\<open>fetchData\<close> at time \<open>now\<close>, every event of the merged
  sequence that is not one of the personal list has a date at or after the bound of the
  query, the date of \<open>now\<close>; the personal list is what the content of the store parses
  to, with no bound on its dates.
\<close>

theorem fetchData_remote_lower_bound:
  assumes "fetchData tz now table (initialState tz now store) = Inr s"
  shows "(\<forall>e \<in> set (allEvals (masterEvals s) (personalEvals s)).
            e \<in> set (personalEvals s) \<or> gte (event_date e) (yyyy_MM_dd tz now))
         \<and> (\<forall>c. store ''personalEvals'' = Some c \<and> c \<noteq> [] \<longrightarrow>
               JSON_parse c = Some (personalEvals s))"
proof -
  have m: "gte (event_date e) (yyyy_MM_dd tz now)" if "e \<in> set (masterEvals s)" for e
    using that fetchData_masterEvals [OF assms]
    by (cases table) (simp_all add: initialState_def gte_evalsQuery)
  have "set (allEvals (masterEvals s) (personalEvals s)) = set (masterEvals s) \<union> set (personalEvals s)"
    by (simp add: allEvals_def set_array_sort)
  moreover have "JSON_parse c = Some (personalEvals s)"
    if "store ''personalEvals'' = Some c" and "c \<noteq> []" for c
    using fetchData_personalEvals [OF assms] that by (simp add: initialState_def)
  ultimately show ?thesis
    using m by auto
qed

theorem fetchData_remote_lower_bound_witness:
  "fetchData tzIST noon (Some [quizOn ''2024-03-12'', quizOn ''2024-03-08'', quizOn ''2024-03-10''])
     (initialState tzIST noon Map.empty) = Inr loadedState
   \<and> yyyy_MM_dd tzIST noon = ''2024-03-10''
   \<and> allEvals (masterEvals loadedState) (personalEvals loadedState)
       = [quizOn ''2024-03-10'', quizOn ''2024-03-12'']
   \<and> list_all (\<lambda>e. gte (event_date e) ''2024-03-10'')
        (allEvals (masterEvals loadedState) (personalEvals loadedState))"
proof -
  have y: "yyyy_MM_dd tzIST noon = ''2024-03-10''"
    by code_simp
  have q: "evalsQuery ''2024-03-10'' [quizOn ''2024-03-12'', quizOn ''2024-03-08'', quizOn ''2024-03-10'']
           = [quizOn ''2024-03-10'', quizOn ''2024-03-12'']"
    by code_simp
  have f: "fetchData tzIST noon (Some [quizOn ''2024-03-12'', quizOn ''2024-03-08'', quizOn ''2024-03-10''])
     (initialState tzIST noon Map.empty) = Inr loadedState"
    by (simp add: fetchData_def y q loadedState_def initialState_def)
  have a: "allEvals (masterEvals loadedState) (personalEvals loadedState)
       = [quizOn ''2024-03-10'', quizOn ''2024-03-12'']"
    by code_simp
  have p: "personalEvals loadedState = []"
    by (simp add: loadedState_def initialState_def)
  from fetchData_remote_lower_bound [OF f]
  have "\<forall>e \<in> set (allEvals (masterEvals loadedState) (personalEvals loadedState)).
          e \<in> set (personalEvals loadedState) \<or> gte (event_date e) (yyyy_MM_dd tzIST noon)"
    by (rule conjunct1)
  then have "list_all (\<lambda>e. gte (event_date e) ''2024-03-10'')
        (allEvals (masterEvals loadedState) (personalEvals loadedState))"
    unfolding p y by (simp add: list_all_iff)
  with f y a show ?thesis
    by blast
qed

text \<open>
  The claim as stated fails for the personal list: a task added in a session of
  2024-03-09 is in the store, and in a session loaded at noon of 2024-03-10 it is in the
  merged sequence, with a date before the start of that day.
\<close>

theorem past_personal_event_counterexample:
  "yesterdayStore = localStorage (addPersonalEval tzIST (noon - msPerDay) typedState)
   \<and> yyyy_MM_dd tzIST noon = ''2024-03-10''
   \<and> map_sum id (\<lambda>s. allEvals (masterEvals s) (personalEvals s))
        (fetchData tzIST noon (Some [quizOn ''2024-03-08'', quizOn ''2024-03-10''])
           (initialState tzIST noon yesterdayStore))
      = Inr [taskOn (noon - msPerDay) ''2024-03-09'', quizOn ''2024-03-10'']
   \<and> isAfter (startOfDay tzIST (Some noon)) (parseISO tzIST ''2024-03-09'')"
proof -
  have y: "yyyy_MM_dd tzIST noon = ''2024-03-10''"
    by code_simp
  have f: "map_sum id (\<lambda>s. allEvals (masterEvals s) (personalEvals s))
        (fetchData tzIST noon (Some [quizOn ''2024-03-08'', quizOn ''2024-03-10''])
           (initialState tzIST noon yesterdayStore))
      = Inr [taskOn (noon - msPerDay) ''2024-03-09'', quizOn ''2024-03-10'']"
    by code_simp
  have a: "isAfter (startOfDay tzIST (Some noon)) (parseISO tzIST ''2024-03-09'')"
    by code_simp
  show ?thesis
    using y f a by (simp add: yesterdayStore_def)
qed

end
